theory Spec2Isabelle
  imports Complex_Main
begin

section \<open>Numbers\<close>

text \<open>
  The value grid shared by an IEEE double (a JavaScript \<open>number\<close>) and by a decimal.js
  value (a mathjs \<open>BigNumber\<close>): not-a-number, the two infinities, the two zeros and the
  finite non-zero values. \<open>Fin 0\<close> is the positive zero, \<open>NZero\<close> the negative one; a
  finite value carries its exact rational value. Not every rational is a double: the
  model ranges over a superset of the values the code can receive.
\<close>

datatype xnum = NaN | PInf | NInf | NZero | Fin rat

type_synonym jsnum = xnum

text \<open>The exact operations of the language on numbers: \<open><\<close>, \<open>===\<close>, unary minus,
  \<open>Math.abs\<close>, \<open>isFinite\<close> and \<open>%\<close> never round.\<close>

fun js_lt :: "jsnum \<Rightarrow> jsnum \<Rightarrow> bool" where
  "js_lt NaN _ = False"
| "js_lt _ NaN = False"
| "js_lt PInf _ = False"
| "js_lt _ PInf = True"
| "js_lt _ NInf = False"
| "js_lt NInf _ = True"
| "js_lt NZero NZero = False"
| "js_lt NZero (Fin q) = (0 < q)"
| "js_lt (Fin p) NZero = (p < 0)"
| "js_lt (Fin p) (Fin q) = (p < q)"

fun js_eq :: "jsnum \<Rightarrow> jsnum \<Rightarrow> bool" where
  "js_eq NaN _ = False"
| "js_eq _ NaN = False"
| "js_eq NZero NZero = True"
| "js_eq NZero (Fin q) = (q = 0)"
| "js_eq (Fin p) NZero = (p = 0)"
| "js_eq x y = (x = y)"

fun js_neg :: "jsnum \<Rightarrow> jsnum" where
  "js_neg NaN = NaN"
| "js_neg PInf = NInf"
| "js_neg NInf = PInf"
| "js_neg NZero = Fin 0"
| "js_neg (Fin q) = (if q = 0 then NZero else Fin (- q))"

fun js_abs :: "jsnum \<Rightarrow> jsnum" where
  "js_abs NaN = NaN"
| "js_abs PInf = PInf"
| "js_abs NInf = PInf"
| "js_abs NZero = Fin 0"
| "js_abs (Fin q) = Fin \<bar>q\<bar>"

fun js_isFinite :: "jsnum \<Rightarrow> bool" where
  "js_isFinite NaN = False"
| "js_isFinite PInf = False"
| "js_isFinite NInf = False"
| "js_isFinite _ = True"

fun is_zero :: "xnum \<Rightarrow> bool" where
  "is_zero NZero = True"
| "is_zero (Fin q) = (q = 0)"
| "is_zero _ = False"

fun is_inf :: "xnum \<Rightarrow> bool" where
  "is_inf PInf = True"
| "is_inf NInf = True"
| "is_inf _ = False"

text \<open>The sign bit: set for the negative zero and the negative infinity as well.\<close>

fun sign_bit :: "xnum \<Rightarrow> bool" where
  "sign_bit NInf = True"
| "sign_bit NZero = True"
| "sign_bit (Fin q) = (q < 0)"
| "sign_bit _ = False"

definition signed_zero :: "bool \<Rightarrow> xnum" where
  "signed_zero neg = (if neg then NZero else Fin 0)"

definition signed_inf :: "bool \<Rightarrow> xnum" where
  "signed_inf neg = (if neg then NInf else PInf)"

text \<open>The remainder of a truncating division, which takes the sign of the dividend.\<close>

definition trunc_rem :: "rat \<Rightarrow> rat \<Rightarrow> rat" where
  "trunc_rem p q =
     (let t = p / q; n = (if 0 \<le> t then \<lfloor>t\<rfloor> else \<lceil>t\<rceil>) in p - q * of_int n)"

definition js_mod :: "jsnum \<Rightarrow> jsnum \<Rightarrow> jsnum" where
  "js_mod x y =
     (if x = NaN \<or> y = NaN \<or> is_inf x \<or> is_zero y then NaN
      else if is_inf y \<or> is_zero x then x
      else case (x, y) of
        (Fin p, Fin q) \<Rightarrow>
          (let r = trunc_rem p q in if r = 0 then signed_zero (p < 0) else Fin r)
      | _ \<Rightarrow> NaN)"

text \<open>
  What rounds is a parameter of the model: \<open>rnd\<close> rounds the exact non-zero quotient of
  two finite non-zero doubles to a double (an infinity on overflow, a zero on
  underflow), and \<open>pow\<close> is \<open>Math.pow\<close>, which the language leaves to the
  implementation. For a \<open>BigNumber\<close>, \<open>bdiv\<close> and \<open>bpow\<close> are the division and the power
  of decimal.js at the precision given first, \<open>finalise\<close> is the rounding of an exact
  result to that many significant digits, which decimal.js applies to the result of
  \<open>mod\<close>, and \<open>toPrecision\<close> is the rounding to that many significant digits, read back
  by the \<open>BigNumber\<close> constructor. \<open>precision\<close> is \<open>BigNumber.precision\<close>.
\<close>

record env =
  rnd :: "rat \<Rightarrow> jsnum"
  pow :: "jsnum \<Rightarrow> jsnum \<Rightarrow> jsnum"
  bdiv :: "nat \<Rightarrow> xnum \<Rightarrow> xnum \<Rightarrow> xnum"
  bpow :: "nat \<Rightarrow> xnum \<Rightarrow> xnum \<Rightarrow> xnum"
  finalise :: "nat \<Rightarrow> xnum \<Rightarrow> xnum"
  toPrecision :: "nat \<Rightarrow> xnum \<Rightarrow> xnum"
  precision :: nat

text \<open>The division of two doubles: exact on the special values, rounded elsewhere.\<close>

definition js_div :: "env \<Rightarrow> jsnum \<Rightarrow> jsnum \<Rightarrow> jsnum" where
  "js_div E x y =
     (if x = NaN \<or> y = NaN then NaN
      else if is_inf x then (if is_inf y then NaN else signed_inf (sign_bit x \<noteq> sign_bit y))
      else if is_inf y then signed_zero (sign_bit x \<noteq> sign_bit y)
      else if is_zero y then (if is_zero x then NaN else signed_inf (sign_bit x \<noteq> sign_bit y))
      else if is_zero x then signed_zero (sign_bit x \<noteq> sign_bit y)
      else case (x, y) of (Fin p, Fin q) \<Rightarrow> rnd E (p / q) | _ \<Rightarrow> NaN)"

section \<open>Errors\<close>

text \<open>
  The source throws a plain \<open>Error\<close> with a message; the constructors name the throw
  sites by the kind the specification gives them. \<open>InvalidRoot\<close> is the throw of
  \<open>'Root must be non-zero'\<close> in \<open>_nthRoot\<close> and \<open>_bigNthRoot\<close>, \<open>NonInvertibleZero\<close> the throw
  of the same message after a failed density test, \<open>InvalidRootParity\<close> the throw of
  \<open>'Root must be odd when a is negative.'\<close>, \<open>UnsupportedType\<close> the throw of
  \<open>complexErr\<close>. \<open>DimensionMismatch\<close> is raised by the traversal strategies, and
  \<open>NoSignature\<close> stands for a pair of argument types that has no handler.
\<close>

datatype error =
  InvalidRoot | InvalidRootParity | NonInvertibleZero | DimensionMismatch
  | UnsupportedType | NoSignature

section \<open>The scalar root in double precision\<close>

definition priv_nthRoot :: "env \<Rightarrow> jsnum \<Rightarrow> jsnum \<Rightarrow> error + jsnum" where
  "priv_nthRoot E a root0 =
     (let inv = js_lt root0 (Fin 0);
          root = (if inv then js_neg root0 else root0)
      in if js_eq root (Fin 0) then Inl InvalidRoot
         else if js_lt a (Fin 0) \<and> \<not> js_eq (js_mod (js_abs root) (Fin 2)) (Fin 1)
           then Inl InvalidRootParity
         else if js_eq a (Fin 0) then Inr (if inv then PInf else Fin 0)
         else if \<not> js_isFinite a then Inr (if inv then Fin 0 else a)
         else
           (let x = pow E (js_abs a) (js_div E (Fin 1) root);
                x' = (if js_lt a (Fin 0) then js_neg x else x)
            in Inr (if inv then js_div E (Fin 1) x' else x')))"

section \<open>The scalar root in arbitrary precision\<close>

text \<open>
  A \<open>BigNumber\<close> is a decimal.js value together with the constructor that made it; a
  constructor is known by its precision (\<open>BigNumber\<close> itself has \<open>precision E\<close>, the clone
  \<open>Big\<close> of \<open>_bigNthRoot\<close> has two digits more). The predicates are those of decimal.js:
  \<open>isNegative\<close> reads the sign, so it holds of the negative zero; \<open>equals\<close> compares
  values, so no value equals not-a-number and the two zeros are equal. \<open>mod\<close> computes
  the exact remainder and rounds it to the precision of the constructor of its
  operand, so a remainder with more digits than that is not the exact one.
\<close>

record bignumber =
  ctor :: nat
  dval :: xnum

definition isNegative :: "bignumber \<Rightarrow> bool" where
  "isNegative x = sign_bit (dval x)"

definition isZero :: "bignumber \<Rightarrow> bool" where
  "isZero x = is_zero (dval x)"

definition isFinite :: "bignumber \<Rightarrow> bool" where
  "isFinite x = js_isFinite (dval x)"

definition neg :: "bignumber \<Rightarrow> bignumber" where
  "neg x = x\<lparr>dval := js_neg (dval x)\<rparr>"

definition abs_big :: "bignumber \<Rightarrow> bignumber" where
  "abs_big x = x\<lparr>dval := js_abs (dval x)\<rparr>"

definition mod_big :: "env \<Rightarrow> bignumber \<Rightarrow> rat \<Rightarrow> bignumber" where
  "mod_big E x n = x\<lparr>dval := finalise E (ctor x) (js_mod (dval x) (Fin n))\<rparr>"

definition equals :: "bignumber \<Rightarrow> rat \<Rightarrow> bool" where
  "equals x n = js_eq (dval x) (Fin n)"

definition div_big :: "env \<Rightarrow> bignumber \<Rightarrow> bignumber \<Rightarrow> bignumber" where
  "div_big E x y = x\<lparr>dval := bdiv E (ctor x) (dval x) (dval y)\<rparr>"

definition pow_big :: "env \<Rightarrow> bignumber \<Rightarrow> bignumber \<Rightarrow> bignumber" where
  "pow_big E x y = x\<lparr>dval := bpow E (ctor x) (dval x) (dval y)\<rparr>"

text \<open>What a scalar handler returns: a native number or a \<open>BigNumber\<close>.\<close>

datatype scalar = Number jsnum | BigNumber bignumber

definition priv_bigNthRoot :: "env \<Rightarrow> bignumber \<Rightarrow> bignumber \<Rightarrow> error + scalar" where
  "priv_bigNthRoot E a root0 =
     (let Big = precision E + 2;
          zero = \<lparr>ctor = precision E, dval = Fin 0\<rparr>;
          one = \<lparr>ctor = Big, dval = Fin 1\<rparr>;
          inv = isNegative root0;
          root = (if inv then neg root0 else root0)
      in if isZero root then Inl InvalidRoot
         else if isNegative a \<and> \<not> equals (mod_big E (abs_big root) 2) 1
           then Inl InvalidRootParity
         else if isZero a
           then Inr (if inv then BigNumber \<lparr>ctor = Big, dval = PInf\<rparr> else Number (Fin 0))
         else if \<not> isFinite a then Inr (BigNumber (if inv then zero else a))
         else
           (let x = pow_big E (abs_big a) (div_big E one root);
                x' = (if isNegative a then neg x else x)
            in Inr (BigNumber \<lparr>ctor = precision E,
                 dval = toPrecision E (precision E) (dval (if inv then div_big E one x' else x'))\<rparr>)))"

text \<open>The last four lines of \<open>_nthRoot\<close>, before the inversion: the power of the
  absolute value, negated for a negative base.\<close>

definition root_of_abs :: "env \<Rightarrow> jsnum \<Rightarrow> jsnum \<Rightarrow> jsnum" where
  "root_of_abs E a rt =
     (let x = pow E (js_abs a) (js_div E (Fin 1) rt)
      in if js_lt a (Fin 0) then js_neg x else x)"

section \<open>Matrices\<close>

text \<open>
  A \<open>DenseMatrix\<close> holds every cell, here in two dimensions as a list of rows; a
  \<open>SparseMatrix\<close> holds its stored cells compressed by column: the values, their row
  indices, and for every column the position where it starts (with one more position
  at the end). A cell is a scalar.
\<close>

record DenseMatrix =
  d_data :: "scalar list list"
  d_size :: "nat \<times> nat"

record SparseMatrix =
  s_values :: "scalar list"
  s_index :: "nat list"
  s_ptr :: "nat list"
  s_size :: "nat \<times> nat"

datatype matrix = Dense DenseMatrix | Sparse SparseMatrix

fun is_dense :: "matrix \<Rightarrow> bool" where
  "is_dense (Dense _) = True"
| "is_dense (Sparse _) = False"

text \<open>
  Modelled from the spec: the method \<open>density\<close> of \<open>SparseMatrix\<close>, which is not in
  \<open>nthRoot.js\<close>. It is the fraction of the stored entries relative to the total
  size, and 1 means that no implicit zero exists; a matrix without any coordinate is
  given the density 0.
\<close>

definition density :: "SparseMatrix \<Rightarrow> rat" where
  "density m =
     (let total = fst (s_size m) * snd (s_size m)
      in if total = 0 then 0 else of_nat (length (s_index m)) / of_nat total)"

text \<open>The stored cells of a sparse matrix with their coordinates, column by column.\<close>

definition entries :: "SparseMatrix \<Rightarrow> ((nat \<times> nat) \<times> scalar) list" where
  "entries m =
     concat (map (\<lambda>j. map (\<lambda>k. ((s_index m ! k, j), s_values m ! k))
                          [s_ptr m ! j ..< s_ptr m ! Suc j])
                 [0 ..< snd (s_size m)])"

text \<open>The cell at a coordinate: the stored value, or the implicit zero.\<close>

definition sparse_at :: "SparseMatrix \<Rightarrow> nat \<Rightarrow> nat \<Rightarrow> scalar" where
  "sparse_at m i j = (case map_of (entries m) (i, j) of Some v \<Rightarrow> v | None \<Rightarrow> Number (Fin 0))"

text \<open>The results of a traversal, left to right, up to the first failure.\<close>

fun collect :: "(error + 'a) list \<Rightarrow> error + 'a list" where
  "collect [] = Inr []"
| "collect (Inl e # _) = Inl e"
| "collect (Inr v # rs) = (case collect rs of Inl e \<Rightarrow> Inl e | Inr vs \<Rightarrow> Inr (v # vs))"

type_synonym callback = "scalar \<Rightarrow> scalar \<Rightarrow> error + scalar"

definition apply_cb :: "callback \<Rightarrow> bool \<Rightarrow> scalar \<Rightarrow> scalar \<Rightarrow> error + scalar" where
  "apply_cb cb inverse_flag x y = (if inverse_flag then cb y x else cb x y)"

text \<open>The cell of a dense matrix at a coordinate, where it has one.\<close>

definition dense_at :: "DenseMatrix \<Rightarrow> nat \<Rightarrow> nat \<Rightarrow> scalar option" where
  "dense_at m i j =
     (if i < length (d_data m) \<and> j < length (d_data m ! i) then Some (d_data m ! i ! j)
      else None)"

text \<open>A scalar that is below zero.\<close>

fun negative_scalar :: "scalar \<Rightarrow> bool" where
  "negative_scalar (Number r) = js_lt r (Fin 0)"
| "negative_scalar (BigNumber b) = js_lt (dval b) (Fin 0)"

section \<open>The traversal strategies\<close>

text \<open>
  Modelled from the spec: \<open>algorithm13\<close> (the strategy DenseDense), which is not in
  \<open>nthRoot.js\<close>. The dimensions must match exactly, otherwise the strategy fails with
  \<open>DimensionMismatch\<close>; the operation is computed for every coordinate and the output
  is dense, of the same shape.
\<close>

definition algorithm13 :: "DenseMatrix \<Rightarrow> DenseMatrix \<Rightarrow> callback \<Rightarrow> error + matrix" where
  "algorithm13 a b cb =
     (if d_size a \<noteq> d_size b then Inl DimensionMismatch
      else case collect (map (\<lambda>(ra, rb). collect (map (\<lambda>(x, y). cb x y) (zip ra rb)))
                             (zip (d_data a) (d_data b))) of
        Inl e \<Rightarrow> Inl e
      | Inr rows \<Rightarrow> Inr (Dense \<lparr>d_data = rows, d_size = d_size a\<rparr>))"

text \<open>
  Modelled from the spec: \<open>algorithm01\<close> (the strategy DenseSparse), which is not in
  \<open>nthRoot.js\<close>. The result is computed coordinate by coordinate and returned as
  dense: the operation is applied where the sparse operand has a stored cell, and a
  cell of the dense operand without one is kept. The density test that the
  specification attaches to the strategy is the one the handler makes before the call
  (line 101), so the strategy does not repeat it.
\<close>

definition algorithm01 ::
  "DenseMatrix \<Rightarrow> SparseMatrix \<Rightarrow> callback \<Rightarrow> bool \<Rightarrow> error + matrix" where
  "algorithm01 d s cb inverse_flag =
     (if d_size d \<noteq> s_size s then Inl DimensionMismatch
      else case collect (map (\<lambda>(i, row).
                  collect (map (\<lambda>(j, x).
                      case map_of (entries s) (i, j) of
                        Some v \<Rightarrow> apply_cb cb inverse_flag x v
                      | None \<Rightarrow> Inr x)
                    (zip [0 ..< length row] row)))
                (zip [0 ..< length (d_data d)] (d_data d))) of
        Inl e \<Rightarrow> Inl e
      | Inr rows \<Rightarrow> Inr (Dense \<lparr>d_data = rows, d_size = d_size d\<rparr>))"

text \<open>
  Modelled from the spec: \<open>algorithm02\<close> (the strategy SparseDense), which is not in
  \<open>nthRoot.js\<close>; the dense operand comes first in its argument list. As for every
  traversal of a sparse operand, the operation is applied at the stored coordinates of
  the sparse operand only and an implicit zero stays implicit, so the result is sparse,
  with the coordinates of the sparse operand. In two points the model follows the
  handler of the source and the repository's \<open>algorithm02\<close>, not the sentence of the
  specification on this strategy: there is no density test (the handler at lines
  95-97 makes none, while its siblings test a sparse root themselves), and the result is
  not dense.
\<close>

definition algorithm02 ::
  "DenseMatrix \<Rightarrow> SparseMatrix \<Rightarrow> callback \<Rightarrow> bool \<Rightarrow> error + matrix" where
  "algorithm02 d s cb inverse_flag =
     (if d_size d \<noteq> s_size s then Inl DimensionMismatch
      else case collect (map (\<lambda>((i, j), v).
                  case dense_at d i j of
                    Some x \<Rightarrow> apply_cb cb inverse_flag x v
                  | None \<Rightarrow> Inl NoSignature)
                (entries s)) of
        Inl e \<Rightarrow> Inl e
      | Inr vs \<Rightarrow> Inr (Sparse (s\<lparr>s_values := vs\<rparr>)))"

text \<open>
  Modelled from the spec: \<open>algorithm06\<close> (the strategy SparseSparse), which is not in
  \<open>nthRoot.js\<close>. The traversal walks the stored coordinates of the first operand and
  produces a sparse result. The density test of the second operand is the one the
  handler makes before the call (line 86), so the strategy does not repeat it.
\<close>

definition algorithm06 :: "SparseMatrix \<Rightarrow> SparseMatrix \<Rightarrow> callback \<Rightarrow> error + matrix" where
  "algorithm06 a b cb =
     (if s_size a \<noteq> s_size b then Inl DimensionMismatch
      else case collect (map (\<lambda>((i, j), v). cb v (sparse_at b i j)) (entries a)) of
        Inl e \<Rightarrow> Inl e
      | Inr vs \<Rightarrow> Inr (Sparse (a\<lparr>s_values := vs\<rparr>)))"

text \<open>
  Modelled from the spec: \<open>algorithm14\<close> (the strategies MatrixScalar and ScalarMatrix
  for a dense operand), which is not in \<open>nthRoot.js\<close>. The operation is broadcast over
  every cell, in the order the flag gives, and the output is dense, of the same shape.
\<close>

definition algorithm14 :: "DenseMatrix \<Rightarrow> scalar \<Rightarrow> callback \<Rightarrow> bool \<Rightarrow> error + matrix" where
  "algorithm14 d b cb inverse_flag =
     (case collect (map (\<lambda>row. collect (map (\<lambda>x. apply_cb cb inverse_flag x b) row)) (d_data d)) of
        Inl e \<Rightarrow> Inl e
      | Inr rows \<Rightarrow> Inr (Dense \<lparr>d_data = rows, d_size = d_size d\<rparr>))"

text \<open>
  Modelled from the spec: \<open>algorithm11\<close> (the strategies MatrixScalar and ScalarMatrix
  for a sparse operand), which is not in \<open>nthRoot.js\<close>. The operation is broadcast over
  the stored coordinates only: applying it at an implicit zero is skipped by
  construction, and the implicit zero stays implicit. The result is sparse, with the
  coordinates of the operand. The strategy makes no test of the scalar or of the
  density: the specification's own open question records that the source does not
  guard a negative root against the implicit zeros.
\<close>

definition algorithm11 :: "SparseMatrix \<Rightarrow> scalar \<Rightarrow> callback \<Rightarrow> bool \<Rightarrow> error + matrix" where
  "algorithm11 s b cb inverse_flag =
     (case collect (map (\<lambda>v. apply_cb cb inverse_flag v b) (s_values s)) of
        Inl e \<Rightarrow> Inl e
      | Inr vs \<Rightarrow> Inr (Sparse (s\<lparr>s_values := vs\<rparr>)))"

section \<open>The dispatcher\<close>

text \<open>
  The arguments of \<open>nthRoot\<close> by their runtime type: a number or a \<open>BigNumber\<close>, a complex
  number (whose value plays no part), a plain array, or a matrix.
\<close>

datatype arg = Scalar scalar | Complex | Array "scalar list list" | Matrix matrix

text \<open>
  The handlers for two scalars, which are also what the traversal strategies call at
  each cell. Modelled from the spec: the front end \<open>typed\<close>, which is not in
  \<open>nthRoot.js\<close>, performs no widening between a native and an arbitrary-precision
  scalar, so a mixed pair has no handler.
\<close>

fun nthRoot_scalar :: "env \<Rightarrow> scalar \<Rightarrow> scalar \<Rightarrow> error + scalar" where
  "nthRoot_scalar E (Number x) (Number y) =
     (case priv_nthRoot E x y of Inl e \<Rightarrow> Inl e | Inr v \<Rightarrow> Inr (Number v))"
| "nthRoot_scalar E (BigNumber x) (BigNumber y) = priv_bigNthRoot E x y"
| "nthRoot_scalar E _ _ = Inl NoSignature"

definition lift_matrix :: "error + matrix \<Rightarrow> error + arg" where
  "lift_matrix r = (case r of Inl e \<Rightarrow> Inl e | Inr m \<Rightarrow> Inr (Matrix m))"

definition lift_scalar :: "error + scalar \<Rightarrow> error + arg" where
  "lift_scalar r = (case r of Inl e \<Rightarrow> Inl e | Inr v \<Rightarrow> Inr (Scalar v))"

text \<open>The handlers for two arguments none of which is a plain array, in the order of
  the source.\<close>

fun nthRoot_typed :: "env \<Rightarrow> arg \<Rightarrow> arg \<Rightarrow> error + arg" where
  "nthRoot_typed E (Scalar x) (Scalar y) = lift_scalar (nthRoot_scalar E x y)"
| "nthRoot_typed E Complex (Scalar (Number y)) = Inl UnsupportedType"
| "nthRoot_typed E (Matrix (Sparse x)) (Matrix (Sparse y)) =
     (if density y = 1 then lift_matrix (algorithm06 x y (nthRoot_scalar E))
      else Inl NonInvertibleZero)"
| "nthRoot_typed E (Matrix (Sparse x)) (Matrix (Dense y)) =
     lift_matrix (algorithm02 y x (nthRoot_scalar E) True)"
| "nthRoot_typed E (Matrix (Dense x)) (Matrix (Sparse y)) =
     (if density y = 1 then lift_matrix (algorithm01 x y (nthRoot_scalar E) False)
      else Inl NonInvertibleZero)"
| "nthRoot_typed E (Matrix (Dense x)) (Matrix (Dense y)) =
     lift_matrix (algorithm13 x y (nthRoot_scalar E))"
| "nthRoot_typed E (Matrix (Sparse x)) (Scalar y) =
     lift_matrix (algorithm11 x y (nthRoot_scalar E) False)"
| "nthRoot_typed E (Matrix (Dense x)) (Scalar y) =
     lift_matrix (algorithm14 x y (nthRoot_scalar E) False)"
| "nthRoot_typed E (Scalar x) (Matrix (Sparse y)) =
     (if density y = 1 then lift_matrix (algorithm11 y x (nthRoot_scalar E) True)
      else Inl NonInvertibleZero)"
| "nthRoot_typed E (Scalar x) (Matrix (Dense y)) =
     lift_matrix (algorithm14 y x (nthRoot_scalar E) True)"
| "nthRoot_typed E _ _ = Inl NoSignature"

text \<open>
  Modelled from the spec: \<open>matrix\<close> and \<open>valueOf\<close>, which are not in \<open>nthRoot.js\<close>, turn
  a plain array into a matrix and back.
\<close>

definition matrix_of :: "scalar list list \<Rightarrow> arg" where
  "matrix_of rows =
     Matrix (Dense \<lparr>d_data = rows,
                    d_size = (length rows, case rows of [] \<Rightarrow> 0 | r # _ \<Rightarrow> length r)\<rparr>)"

fun valueOf :: "arg \<Rightarrow> arg" where
  "valueOf (Matrix (Dense d)) = Array (d_data d)"
| "valueOf (Matrix (Sparse s)) =
     Array (map (\<lambda>i. map (\<lambda>j. sparse_at s i j) [0 ..< snd (s_size s)]) [0 ..< fst (s_size s)])"
| "valueOf v = v"

definition lift_valueOf :: "error + arg \<Rightarrow> error + arg" where
  "lift_valueOf r = (case r of Inl e \<Rightarrow> Inl e | Inr v \<Rightarrow> Inr (valueOf v))"

text \<open>The function \<open>nthRoot\<close> of two arguments: the handlers for plain arrays convert
  and call \<open>nthRoot\<close> again, which then finds matrices.\<close>

fun nthRoot :: "env \<Rightarrow> arg \<Rightarrow> arg \<Rightarrow> error + arg" where
  "nthRoot E (Array x) (Array y) = lift_valueOf (nthRoot_typed E (matrix_of x) (matrix_of y))"
| "nthRoot E (Array x) (Matrix y) = nthRoot_typed E (matrix_of x) (Matrix y)"
| "nthRoot E (Matrix x) (Array y) = nthRoot_typed E (Matrix x) (matrix_of y)"
| "nthRoot E (Array x) (Scalar y) = lift_valueOf (nthRoot_typed E (matrix_of x) (Scalar y))"
| "nthRoot E (Scalar x) (Array y) = lift_valueOf (nthRoot_typed E (Scalar x) (matrix_of y))"
| "nthRoot E x y = nthRoot_typed E x y"

text \<open>The function \<open>nthRoot\<close> of one argument: the root is 2.\<close>

fun nthRoot1 :: "env \<Rightarrow> arg \<Rightarrow> error + arg" where
  "nthRoot1 E (Scalar (Number x)) =
     (case priv_nthRoot E x (Fin 2) of Inl e \<Rightarrow> Inl e | Inr v \<Rightarrow> Inr (Scalar (Number v)))"
| "nthRoot1 E (Scalar (BigNumber x)) =
     lift_scalar (priv_bigNthRoot E x \<lparr>ctor = precision E, dval = Fin 2\<rparr>)"
| "nthRoot1 E Complex = Inl UnsupportedType"
| "nthRoot1 E x = nthRoot E x (Scalar (Number (Fin 2)))"

section \<open>A concrete instance of the parameters\<close>

text \<open>
  One instance of the parameters, at which the model is evaluated on concrete inputs.
  The quotient 1 / 3 is rounded as IEEE arithmetic rounds it, to the double
  6004799503160661 / 2^54, and the other quotients, which the inputs below keep among
  the doubles, are exact; \<open>Math.pow\<close> is known at the cube root of 8 only, where it is 2.
  The precision is 64 digits. The decimal quotient 1 / 3 has 66 digits and the
  decimal power of 8 to it is 2 at 64 digits. The number \<open>near_one\<close>, which is
  1 + 10^-70, has 71 digits: \<open>finalise\<close> rounds it to 1, the quotient of 1 by it is 1 at
  66 digits, and the power 1 of a number is that number. The other values that
  \<open>finalise\<close> and \<open>toPrecision\<close> meet below fit the precision.
\<close>

definition third_double :: rat where
  "third_double = 6004799503160661 / 18014398509481984"

definition third_decimal :: rat where
  "third_decimal = 333333333333333333333333333333333333333333333333333333333333333333
                   / 1000000000000000000000000000000000000000000000000000000000000000000"

definition near_one :: rat where
  "near_one = 10000000000000000000000000000000000000000000000000000000000000000000001
              / 10000000000000000000000000000000000000000000000000000000000000000000000"

definition test_env :: env where
  "test_env =
     \<lparr>rnd = (\<lambda>q. if q = 1 / 3 then Fin third_double else Fin q),
      pow = (\<lambda>x y. if x = Fin 8 \<and> y = Fin third_double then Fin 2 else NaN),
      bdiv = (\<lambda>p x y. case (x, y) of
                (Fin a, Fin b) \<Rightarrow>
                  if a / b = 1 / 3 then Fin third_decimal
                  else if a = 1 \<and> b = near_one then Fin 1
                  else Fin (a / b)
              | _ \<Rightarrow> NaN),
      bpow = (\<lambda>p x y. if y = Fin 1 then x
                     else if x = Fin 8 \<and> y = Fin third_decimal then Fin 2 else NaN),
      finalise = (\<lambda>p x. if x = Fin near_one then Fin 1 else x),
      toPrecision = (\<lambda>p x. x),
      precision = 64\<rparr>"

text \<open>Sample matrices: a sparse column of two cells with one stored entry, a full sparse
  matrix of one cell, and dense matrices of the same shapes.\<close>

definition sparse_half :: SparseMatrix where
  "sparse_half = \<lparr>s_values = [Number (Fin 8)], s_index = [0], s_ptr = [0, 1], s_size = (2, 1)\<rparr>"

definition sparse_full :: SparseMatrix where
  "sparse_full = \<lparr>s_values = [Number PInf], s_index = [0], s_ptr = [0, 1], s_size = (1, 1)\<rparr>"

definition dense_column :: DenseMatrix where
  "dense_column = \<lparr>d_data = [[Number (Fin 3)], [Number (Fin 3)]], d_size = (2, 1)\<rparr>"

definition dense_half :: DenseMatrix where
  "dense_half = \<lparr>d_data = [[Number (Fin 8)], [Number (Fin 0)]], d_size = (2, 1)\<rparr>"

definition dense_cell :: DenseMatrix where
  "dense_cell = \<lparr>d_data = [[Number (Fin 2)]], d_size = (1, 1)\<rparr>"

section \<open>Properties of the scalar root\<close>

lemma js_eq_zero [simp]: "js_eq x (Fin 0) = is_zero x"
  by (cases x) auto

lemma js_lt_zero [simp]: "js_lt x (Fin 0) = (x = NInf \<or> (\<exists>q. x = Fin q \<and> q < 0))"
  by (cases x) auto

lemma zero_lt_js: "js_lt (Fin 0) x = (x = PInf \<or> (\<exists>q. x = Fin q \<and> 0 < q))"
  by (cases x) auto

lemma odd_never_zero: "(0::rat) \<noteq> of_int (2 * k + 1)"
proof
  assume "(0::rat) = of_int (2 * k + 1)"
  then have "2 * k + 1 = 0" by (metis of_int_eq_0_iff)
  then show False by presburger
qed

text \<open>The parity test of the source, \<open>Math.abs(root) % 2 === 1\<close>, holds of a finite root
  exactly when its absolute value is an odd integer.\<close>

lemma odd_test:
  "js_eq (js_mod (js_abs (Fin q)) (Fin 2)) (Fin 1) = (\<exists>k::int. \<bar>q\<bar> = of_int (2 * k + 1))"
proof (cases "q = 0")
  case True
  then show ?thesis using odd_never_zero by (simp add: js_mod_def)
next
  case False
  let ?p = "\<bar>q\<bar>"
  have pos: "0 < ?p" using False by simp
  have t: "trunc_rem ?p 2 = ?p - 2 * of_int \<lfloor>?p / 2\<rfloor>"
    using pos by (simp add: trunc_rem_def Let_def)
  have m: "js_mod (js_abs (Fin q)) (Fin 2) =
      (if trunc_rem ?p 2 = 0 then Fin 0 else Fin (trunc_rem ?p 2))"
    using False by (simp add: js_mod_def Let_def signed_zero_def)
  have "(trunc_rem ?p 2 = 1) = (\<exists>k::int. ?p = of_int (2 * k + 1))"
  proof
    assume "trunc_rem ?p 2 = 1"
    then have "?p = of_int (2 * \<lfloor>?p / 2\<rfloor> + 1)" using t by simp
    then show "\<exists>k::int. ?p = of_int (2 * k + 1)" by blast
  next
    assume "\<exists>k::int. ?p = of_int (2 * k + 1)"
    then obtain k :: int where k: "?p = of_int (2 * k + 1)" by blast
    have "?p / 2 = of_int k + 1 / 2" using k by simp
    then have "\<lfloor>?p / 2\<rfloor> = k" by (simp add: floor_unique)
    then show "trunc_rem ?p 2 = 1" using t k by simp
  qed
  then show ?thesis using m by auto
qed

text \<open>
  C6. A root that is exactly zero, of either sign, fails with \<open>InvalidRoot\<close> whatever
  the base is (negative, zero, infinite or not a number), in double precision and in
  arbitrary precision: the test of the root comes before every test of the base.
\<close>

theorem zero_root_is_invalid:
  "priv_nthRoot E x (Fin 0) = Inl InvalidRoot
   \<and> priv_nthRoot E x NZero = Inl InvalidRoot
   \<and> priv_bigNthRoot E a \<lparr>ctor = c, dval = Fin 0\<rparr> = Inl InvalidRoot
   \<and> priv_bigNthRoot E a \<lparr>ctor = c, dval = NZero\<rparr> = Inl InvalidRoot"
  by (simp add: priv_nthRoot_def priv_bigNthRoot_def isNegative_def isZero_def neg_def)

lemma js_abs_neg [simp]: "js_abs (js_neg r) = js_abs r"
  by (cases r) auto

lemma is_zero_neg [simp]: "is_zero (js_neg r) = is_zero r"
  by (cases r) auto



lemma root_three_passes_parity: "js_eq (js_mod (js_abs (Fin 3)) (Fin 2)) (Fin 1)"
  unfolding odd_test by (rule exI [of _ 1]) simp

lemmas big_defs = priv_bigNthRoot_def Let_def isZero_def isNegative_def isFinite_def neg_def
  abs_big_def mod_big_def equals_def pow_big_def div_big_def

lemma test_env_fields:
  "rnd test_env (1 / 3) = Fin third_double"
  "rnd test_env (1 / 2) = Fin (1 / 2)"
  "pow test_env (Fin 8) (Fin third_double) = Fin 2"
  "bdiv test_env p (Fin 1) (Fin 3) = Fin third_decimal"
  "bpow test_env p (Fin 8) (Fin third_decimal) = Fin 2"
  "finalise test_env p (Fin 0) = Fin 0"
  "finalise test_env p (Fin 1) = Fin 1"
  "finalise test_env p (Fin (1 / 2)) = Fin (1 / 2)"
  "finalise test_env p (Fin near_one) = Fin 1"
  "finalise test_env p NaN = NaN"
  "bdiv test_env p (Fin 1) (Fin near_one) = Fin 1"
  "bpow test_env p x (Fin 1) = x"
  "toPrecision test_env p v = v"
  "precision test_env = 64"
  by (simp_all add: test_env_def near_one_def third_decimal_def)

lemma remainders:
  "js_mod (js_abs (Fin 2)) (Fin 2) = Fin 0"
  "js_mod (js_abs (Fin 3)) (Fin 2) = Fin 1"
  "js_mod (js_abs (Fin (1 / 2))) (Fin 2) = Fin (1 / 2)"
proof -
  have f: "\<lfloor>3 / 2 :: rat\<rfloor> = 1" "\<lfloor>1 / 4 :: rat\<rfloor> = 0"
    by (rule floor_unique; simp)+
  show "js_mod (js_abs (Fin 2)) (Fin 2) = Fin 0"
    by (simp add: js_mod_def trunc_rem_def signed_zero_def)
  show "js_mod (js_abs (Fin 3)) (Fin 2) = Fin 1"
    using f(1) by (simp add: js_mod_def trunc_rem_def)
  show "js_mod (js_abs (Fin (1 / 2))) (Fin 2) = Fin (1 / 2)"
    using f(2) by (simp add: js_mod_def trunc_rem_def)
qed


lemma positive_root_form:
  assumes "js_lt (Fin 0) r"
  shows "priv_nthRoot E a r =
     (if js_lt a (Fin 0) \<and> \<not> js_eq (js_mod (js_abs r) (Fin 2)) (Fin 1) then Inl InvalidRootParity
      else if is_zero a then Inr (Fin 0)
      else if \<not> js_isFinite a then Inr a
      else Inr (root_of_abs E a r))"
proof -
  from assms have "r = PInf \<or> (\<exists>q. r = Fin q \<and> 0 < q)" by (simp add: zero_lt_js)
  then have n: "\<not> js_lt r (Fin 0)" "\<not> is_zero r" by auto
  show ?thesis using n
    by (simp add: priv_nthRoot_def root_of_abs_def Let_def del: js_lt_zero)
qed

lemma negative_root_form:
  assumes "js_lt (Fin 0) r"
  shows "priv_nthRoot E a (js_neg r) =
     (if js_lt a (Fin 0) \<and> \<not> js_eq (js_mod (js_abs r) (Fin 2)) (Fin 1) then Inl InvalidRootParity
      else if is_zero a then Inr PInf
      else if \<not> js_isFinite a then Inr (Fin 0)
      else Inr (js_div E (Fin 1) (root_of_abs E a r)))"
proof -
  from assms have "r = PInf \<or> (\<exists>q. r = Fin q \<and> 0 < q)" by (simp add: zero_lt_js)
  then have n: "js_lt (js_neg r) (Fin 0)" "js_neg (js_neg r) = r" "\<not> is_zero r" by auto
  show ?thesis using n
    by (simp add: priv_nthRoot_def root_of_abs_def Let_def del: js_lt_zero)
qed

lemma js_div_one_special:
  "js_div E (Fin 1) (Fin 0) = PInf" "js_div E (Fin 1) PInf = Fin 0" "js_div E (Fin 1) NInf = NZero"
  by (simp_all add: js_div_def signed_zero_def signed_inf_def)



text \<open>
  C7, amended. For a base that is not \<open>NaN\<close> and a root \<open>r > 0\<close> on which the scalar root
  succeeds with \<open>x\<close>, the scalar root with the root \<open>-r\<close> succeeds with \<open>1 / x\<close>; at the
  base \<open>-Infinity\<close> it is the positive zero where \<open>1 / x\<close> is the negative zero. The zero
  and infinity bases agree with \<open>1 / 0 = +Infinity\<close> and \<open>1 / Infinity = 0\<close>.
\<close>

theorem negative_root_inverts:
  assumes "a \<noteq> NaN" and "js_lt (Fin 0) r" and "priv_nthRoot E a r = Inr x"
  shows "\<exists>y. priv_nthRoot E a (js_neg r) = Inr y
           \<and> (if a = NInf then y = Fin 0 \<and> js_div E (Fin 1) x = NZero
              else y = js_div E (Fin 1) x)"
proof -
  note pf = positive_root_form [OF assms(2), of E a]
  note nf = negative_root_form [OF assms(2), of E a]
  have ok: "\<not> (js_lt a (Fin 0) \<and> \<not> js_eq (js_mod (js_abs r) (Fin 2)) (Fin 1))"
    using assms(3) pf by (auto simp del: js_lt_zero split: if_splits)
  consider (zero) "is_zero a" | (inf) "a = PInf" | (ninf) "a = NInf"
    | (fin) "\<not> is_zero a" "js_isFinite a"
    using assms(1) by (cases a) auto
  then show ?thesis
  proof cases
    case zero
    then have "x = Fin 0" using assms(3) pf ok by (simp del: js_lt_zero)
    moreover have "priv_nthRoot E a (js_neg r) = Inr PInf" using zero nf ok by (simp del: js_lt_zero)
    moreover have "a \<noteq> NInf" using zero by auto
    ultimately show ?thesis by (simp add: js_div_one_special)
  next
    case inf
    then have "x = PInf" using assms(3) pf ok by (simp del: js_lt_zero)
    moreover have "priv_nthRoot E a (js_neg r) = Inr (Fin 0)" using inf nf ok by (simp del: js_lt_zero)
    ultimately show ?thesis using inf by (simp add: js_div_one_special)
  next
    case ninf
    then have "x = NInf" using assms(3) pf ok by (simp del: js_lt_zero)
    moreover have "priv_nthRoot E a (js_neg r) = Inr (Fin 0)" using ninf nf ok by (simp del: js_lt_zero)
    ultimately show ?thesis using ninf by (simp add: js_div_one_special)
  next
    case fin
    then have "x = root_of_abs E a r" using assms(3) pf ok by (simp del: js_lt_zero)
    moreover have "priv_nthRoot E a (js_neg r) = Inr (js_div E (Fin 1) (root_of_abs E a r))"
      using fin nf ok by (simp del: js_lt_zero)
    moreover have "a \<noteq> NInf" using fin by auto
    ultimately show ?thesis by simp
  qed
qed

text \<open>What the branch of a zero base returns where the parity test is passed: the
  native number 0 or the \<open>Infinity\<close> of the clone \<open>Big\<close>, neither rounded through
  \<open>toPrecision\<close>, as every successful result for a finite non-zero base is.\<close>

lemma big_zero_base_skips_rounding:
  "(isZero a \<and> \<not> isZero b \<and> priv_bigNthRoot E a b \<noteq> Inl InvalidRootParity \<longrightarrow>
      (\<not> isNegative b \<longrightarrow> priv_bigNthRoot E a b = Inr (Number (Fin 0)))
      \<and> (isNegative b \<longrightarrow>
            priv_bigNthRoot E a b = Inr (BigNumber \<lparr>ctor = precision E + 2, dval = PInf\<rparr>)))
   \<and> (\<not> isZero a \<and> isFinite a \<and> priv_bigNthRoot E a b = Inr v \<longrightarrow>
        (\<exists>x. v = BigNumber \<lparr>ctor = precision E, dval = toPrecision E (precision E) x\<rparr>))"
proof -
  have nz: "\<not> isZero b \<Longrightarrow> \<not> isZero (neg b)"
    by (simp add: isZero_def neg_def)
  have z: "(\<not> isNegative b \<longrightarrow> priv_bigNthRoot E a b = Inr (Number (Fin 0)))
      \<and> (isNegative b \<longrightarrow>
            priv_bigNthRoot E a b = Inr (BigNumber \<lparr>ctor = precision E + 2, dval = PInf\<rparr>))"
    if "isZero a" "\<not> isZero b" "priv_bigNthRoot E a b \<noteq> Inl InvalidRootParity"
    using that nz by (auto simp: priv_bigNthRoot_def Let_def split: if_splits)
  have f: "\<exists>x. v = BigNumber \<lparr>ctor = precision E, dval = toPrecision E (precision E) x\<rparr>"
    if "\<not> isZero a" "isFinite a" "priv_bigNthRoot E a b = Inr v"
    using that by (auto simp: priv_bigNthRoot_def Let_def split: if_splits)
  show ?thesis using z f by blast
qed

text \<open>
  C9. In arbitrary precision a base with \<open>isZero\<close> and a positive root give the native
  number 0, not a \<open>BigNumber\<close>, and a negative root gives the \<open>Infinity\<close> of the clone \<open>Big\<close>
  of precision + 2, not rounded through \<open>toPrecision\<close>. The code does so at the
  positive zero and breaks it at the negative zero: with the root 2, and with the root
  -2, \<open>_bigNthRoot\<close> fails with \<open>InvalidRootParity\<close>, because \<open>isNegative\<close> reads the sign of
  the zero, where \<open>_nthRoot\<close> returns 0 and \<open>+Infinity\<close>.
\<close>

theorem big_negative_zero_base:
  "isZero \<lparr>ctor = 64, dval = NZero\<rparr>
   \<and> priv_bigNthRoot test_env \<lparr>ctor = 64, dval = NZero\<rparr> \<lparr>ctor = 64, dval = Fin 2\<rparr>
        = Inl InvalidRootParity
   \<and> priv_bigNthRoot test_env \<lparr>ctor = 64, dval = NZero\<rparr> \<lparr>ctor = 64, dval = Fin (- 2)\<rparr>
        = Inl InvalidRootParity
   \<and> priv_nthRoot test_env NZero (Fin 2) = Inr (Fin 0)
   \<and> priv_nthRoot test_env NZero (Fin (- 2)) = Inr PInf
   \<and> priv_bigNthRoot test_env \<lparr>ctor = 64, dval = Fin 0\<rparr> \<lparr>ctor = 64, dval = Fin 2\<rparr>
        = Inr (Number (Fin 0))
   \<and> priv_bigNthRoot test_env \<lparr>ctor = 64, dval = Fin 0\<rparr> \<lparr>ctor = 64, dval = Fin (- 2)\<rparr>
        = Inr (BigNumber \<lparr>ctor = 66, dval = PInf\<rparr>)"
  using remainders [simplified]
  by (simp add: big_defs test_env_fields priv_nthRoot_def)

text \<open>
  C10. In double precision every base that is not finite takes the infinity branch:
  for every root \<open>r > 0\<close> the root of \<open>NaN\<close> is \<open>NaN\<close> and the root \<open>-r\<close> of \<open>NaN\<close> is 0, and
  for every odd integer root \<open>r > 0\<close> the root of \<open>-Infinity\<close> is \<open>-Infinity\<close>; none of
  them fails.
\<close>

theorem non_finite_base:
  "(js_lt (Fin 0) r \<longrightarrow>
      priv_nthRoot E NaN r = Inr NaN \<and> priv_nthRoot E NaN (js_neg r) = Inr (Fin 0))
   \<and> (0 \<le> k \<longrightarrow> priv_nthRoot E NInf (Fin (of_int (2 * k + 1))) = Inr NInf)"
proof -
  have a: "priv_nthRoot E NaN r = Inr NaN \<and> priv_nthRoot E NaN (js_neg r) = Inr (Fin 0)"
    if "js_lt (Fin 0) r"
    using that by (cases r) (auto simp: priv_nthRoot_def)
  have b: "priv_nthRoot E NInf (Fin (of_int (2 * k + 1))) = Inr NInf" if "0 \<le> k"
  proof -
    have pos: "(0::rat) < of_int (2 * k + 1)" using that by simp
    have "js_eq (js_mod (js_abs (Fin (of_int (2 * k + 1)))) (Fin 2)) (Fin 1)"
      unfolding odd_test using pos by (intro exI [of _ k]) simp
    then show ?thesis using pos by (simp add: priv_nthRoot_def Let_def)
  qed
  show ?thesis using a b by blast
qed

section \<open>The scalar claims at concrete inputs\<close>






text \<open>The base \<open>NaN\<close> with the roots 2 and -2: the root 2 succeeds with \<open>NaN\<close>, the root -2
  gives 0, and \<open>1 / NaN\<close> is \<open>NaN\<close>, which 0 is not.\<close>

theorem nan_base_counterexample:
  "js_lt (Fin 0) (Fin 2) \<and> priv_nthRoot test_env NaN (Fin 2) = Inr NaN
   \<and> priv_nthRoot test_env NaN (js_neg (Fin 2)) = Inr (Fin 0)
   \<and> js_div test_env (Fin 1) NaN = NaN \<and> \<not> js_eq (Fin 0) NaN"
  by (simp add: priv_nthRoot_def js_div_def)

theorem negative_root_inverts_witness:
  "Fin (- 8) \<noteq> NaN \<and> js_lt (Fin 0) (Fin 3)
   \<and> priv_nthRoot test_env (Fin (- 8)) (Fin 3) = Inr (Fin (- 2))
   \<and> priv_nthRoot test_env (Fin (- 8)) (js_neg (Fin 3)) = Inr (Fin (- 1 / 2))
   \<and> js_div test_env (Fin 1) (Fin (- 2)) = Fin (- 1 / 2)"
proof -
  note three = root_three_passes_parity
  have h: "Fin (- 8) \<noteq> NaN" "js_lt (Fin 0) (Fin 3)" by simp_all
  have d: "js_div test_env (Fin 1) (Fin 3) = Fin third_double"
    "js_div test_env (Fin 1) (Fin (- 2)) = Fin (- 1 / 2)"
    by (simp_all add: js_div_def test_env_def)
  have v: "priv_nthRoot test_env (Fin (- 8)) (Fin 3) = Inr (Fin (- 2))"
    using three d by (simp add: priv_nthRoot_def Let_def test_env_fields)
  show ?thesis
    using negative_root_inverts [OF h v] h v d by simp
qed

theorem non_finite_base_witness:
  "js_lt (Fin 0) (Fin 2) \<and> priv_nthRoot test_env NaN (Fin 2) = Inr NaN
   \<and> priv_nthRoot test_env NaN (js_neg (Fin 2)) = Inr (Fin 0)
   \<and> (0::int) \<le> 1 \<and> priv_nthRoot test_env NInf (Fin 3) = Inr NInf"
proof -
  have h: "js_lt (Fin 0) (Fin 2)" "(0::int) \<le> 1" by simp_all
  show ?thesis
    using non_finite_base [where r = "Fin 2" and E = test_env and k = 1] h by simp
qed

section \<open>Properties of the dispatcher\<close>

lemma lift_matrix_Inl [simp]: "lift_matrix (Inl e) = Inl e"
  by (simp add: lift_matrix_def)

lemma lift_matrix_Inr [simp]: "lift_matrix (Inr m) = Inr (Matrix m)"
  by (simp add: lift_matrix_def)

lemma density_samples: "density sparse_half = 1 / 2" "density sparse_full = 1"
  by (simp_all add: density_def sparse_half_def sparse_full_def)

text \<open>
  C1. For a sparse matrix on the root side whose density is not 1, in particular below
  1, \<open>nthRoot\<close> fails with \<open>NonInvertibleZero\<close> in all three shapes: a sparse base, a
  dense base and a scalar base. When the density is 1, the result is that of the
  matching traversal strategy: \<open>algorithm06\<close>, \<open>algorithm01\<close> and \<open>algorithm11\<close>.
\<close>

theorem sparse_root_needs_density_one:
  "(density y \<noteq> 1 \<longrightarrow>
      nthRoot E (Matrix (Sparse x)) (Matrix (Sparse y)) = Inl NonInvertibleZero
      \<and> nthRoot E (Matrix (Dense d)) (Matrix (Sparse y)) = Inl NonInvertibleZero
      \<and> nthRoot E (Scalar s) (Matrix (Sparse y)) = Inl NonInvertibleZero)
   \<and> (density y = 1 \<longrightarrow>
      nthRoot E (Matrix (Sparse x)) (Matrix (Sparse y))
        = lift_matrix (algorithm06 x y (nthRoot_scalar E))
      \<and> nthRoot E (Matrix (Dense d)) (Matrix (Sparse y))
        = lift_matrix (algorithm01 d y (nthRoot_scalar E) False)
      \<and> nthRoot E (Scalar s) (Matrix (Sparse y))
        = lift_matrix (algorithm11 y s (nthRoot_scalar E) True))"
  by simp

theorem sparse_root_needs_density_one_witness:
  "density sparse_half \<noteq> 1
   \<and> nthRoot test_env (Matrix (Sparse sparse_full)) (Matrix (Sparse sparse_half)) = Inl NonInvertibleZero
   \<and> nthRoot test_env (Matrix (Dense dense_column)) (Matrix (Sparse sparse_half)) = Inl NonInvertibleZero
   \<and> nthRoot test_env (Scalar (Number (Fin 4))) (Matrix (Sparse sparse_half)) = Inl NonInvertibleZero
   \<and> density sparse_full = 1
   \<and> nthRoot test_env (Scalar (Number (Fin 4))) (Matrix (Sparse sparse_full))
       = lift_matrix (algorithm11 sparse_full (Number (Fin 4)) (nthRoot_scalar test_env) True)"
proof -
  have h: "density sparse_half \<noteq> 1" "density sparse_full = 1"
    by (simp_all add: density_samples)
  show ?thesis
    using sparse_root_needs_density_one [where y = sparse_half and E = test_env
        and x = sparse_full and d = dense_column and s = "Number (Fin 4)"]
      sparse_root_needs_density_one [where y = sparse_full and E = test_env
        and x = sparse_full and d = dense_column and s = "Number (Fin 4)"] h
    by blast
qed

text \<open>The failures of the scalar handlers: none of them is \<open>NonInvertibleZero\<close>.\<close>

lemma priv_nthRoot_errors:
  "priv_nthRoot E a r = Inl e \<Longrightarrow> e = InvalidRoot \<or> e = InvalidRootParity"
  by (auto simp: priv_nthRoot_def Let_def simp del: js_lt_zero js_eq_zero split: if_splits)

lemma priv_bigNthRoot_errors:
  "priv_bigNthRoot E a r = Inl e \<Longrightarrow> e = InvalidRoot \<or> e = InvalidRootParity"
  by (auto simp: priv_bigNthRoot_def Let_def split: if_splits)

lemma nthRoot_scalar_errors:
  "nthRoot_scalar E x y = Inl e \<Longrightarrow> e \<noteq> NonInvertibleZero \<and> e \<noteq> DimensionMismatch"
proof (cases x; cases y)
  fix a r assume "x = Number a" "y = Number r" and "nthRoot_scalar E x y = Inl e"
  then show ?thesis using priv_nthRoot_errors [of E a r e] by (auto split: sum.splits)
next
  fix a r assume "x = BigNumber a" "y = BigNumber r" and "nthRoot_scalar E x y = Inl e"
  then show ?thesis using priv_bigNthRoot_errors [of E a r e] by auto
qed auto

lemma collect_Inl: "collect rs = Inl e \<Longrightarrow> Inl e \<in> set rs"
  by (induction rs rule: collect.induct) (auto split: sum.splits)

lemma algorithm11_errors:
  assumes "algorithm11 s b (nthRoot_scalar E) f = Inl e"
  shows "e \<noteq> NonInvertibleZero"
proof -
  from assms have "collect (map (\<lambda>v. apply_cb (nthRoot_scalar E) f v b) (s_values s)) = Inl e"
    by (auto simp: algorithm11_def split: sum.splits)
  then obtain v where "apply_cb (nthRoot_scalar E) f v b = Inl e"
    using collect_Inl by fastforce
  then show ?thesis
    using nthRoot_scalar_errors by (auto simp: apply_cb_def split: if_splits)
qed

lemma algorithm02_errors:
  assumes "algorithm02 d s (nthRoot_scalar E) f = Inl e" and "d_size d = s_size s"
  shows "e \<noteq> NonInvertibleZero"
proof -
  let ?g = "\<lambda>((i, j), v). case dense_at d i j of
      Some x \<Rightarrow> apply_cb (nthRoot_scalar E) f x v | None \<Rightarrow> Inl NoSignature"
  from assms have "collect (map ?g (entries s)) = Inl e"
    by (auto simp: algorithm02_def split: sum.splits)
  then obtain c where "?g c = Inl e"
    using collect_Inl by fastforce
  then show ?thesis
    using nthRoot_scalar_errors
    by (auto simp: apply_cb_def split: if_splits option.splits prod.splits)
qed

lemma sparse_half_entries: "entries sparse_half = [((0, 0), Number (Fin 8))]"
  by (simp add: entries_def sparse_half_def)

lemma sparse_full_entries: "entries sparse_full = [((0, 0), Number PInf)]"
  by (simp add: entries_def sparse_full_def)

lemma root_samples:
  "nthRoot_scalar test_env (Number (Fin 8)) (Number (Fin 3)) = Inr (Number (Fin 2))"
  "nthRoot_scalar test_env (Number (Fin 8)) (Number (Fin (- 3))) = Inr (Number (Fin (1 / 2)))"
  "nthRoot_scalar test_env (Number (Fin 0)) (Number (Fin (- 3))) = Inr (Number PInf)"
  "nthRoot_scalar test_env (Number PInf) (Number (Fin 2)) = Inr (Number PInf)"
  using root_three_passes_parity
  by (simp_all add: priv_nthRoot_def Let_def js_div_def test_env_fields)

text \<open>
  C2. For a sparse matrix that contains implicit zeros and a negative scalar root,
  \<open>nthRoot\<close> ought to fail with \<open>NonInvertibleZero\<close>, the root of an implicit zero being
  \<open>+Infinity\<close>. The code does not: no sparse base with a scalar root ever fails with
  \<open>NonInvertibleZero\<close>, and the column with the stored cell 8 and one implicit zero, with
  the root -3, gives the sparse column with the stored cell 1 / 2 and the implicit zero
  kept, where the root of 0 is \<open>+Infinity\<close> and the dense column with the same cells
  gives \<open>+Infinity\<close> in that cell.
\<close>

theorem negative_root_keeps_implicit_zero:
  "nthRoot E (Matrix (Sparse x)) (Scalar r) \<noteq> Inl NonInvertibleZero
   \<and> density sparse_half < 1 \<and> js_lt (Fin (- 3)) (Fin 0)
   \<and> nthRoot test_env (Matrix (Sparse sparse_half)) (Scalar (Number (Fin (- 3))))
       = Inr (Matrix (Sparse \<lparr>s_values = [Number (Fin (1 / 2))], s_index = [0],
                               s_ptr = [0, 1], s_size = (2, 1)\<rparr>))
   \<and> nthRoot_scalar test_env (Number (Fin 0)) (Number (Fin (- 3))) = Inr (Number PInf)
   \<and> nthRoot test_env (Matrix (Dense dense_half)) (Scalar (Number (Fin (- 3))))
       = Inr (Matrix (Dense \<lparr>d_data = [[Number (Fin (1 / 2))], [Number PInf]],
                              d_size = (2, 1)\<rparr>))"
proof -
  have g: "nthRoot E (Matrix (Sparse x)) (Scalar r) \<noteq> Inl NonInvertibleZero"
    using algorithm11_errors [of x r E False]
    by (cases "algorithm11 x r (nthRoot_scalar E) False") auto
  have s: "nthRoot test_env (Matrix (Sparse sparse_half)) (Scalar (Number (Fin (- 3))))
       = Inr (Matrix (Sparse \<lparr>s_values = [Number (Fin (1 / 2))], s_index = [0],
                               s_ptr = [0, 1], s_size = (2, 1)\<rparr>))"
    using root_samples(2) by (simp add: algorithm11_def apply_cb_def sparse_half_def)
  have d: "nthRoot test_env (Matrix (Dense dense_half)) (Scalar (Number (Fin (- 3))))
       = Inr (Matrix (Dense \<lparr>d_data = [[Number (Fin (1 / 2))], [Number PInf]],
                              d_size = (2, 1)\<rparr>))"
    using root_samples(2,3) by (simp add: algorithm14_def apply_cb_def dense_half_def)
  show ?thesis using g s d root_samples(3) density_samples(1) by simp
qed

text \<open>The sparse column with one implicit zero as the base and a dense column of the
  same shape as the root: the density is below 1 and the result is a sparse column,
  not the failure \<open>NonInvertibleZero\<close>.\<close>

theorem sparse_base_dense_root_counterexample:
  "density sparse_half < 1 \<and> s_size sparse_half = d_size dense_column
   \<and> nthRoot test_env (Matrix (Sparse sparse_half)) (Matrix (Dense dense_column))
       = Inr (Matrix (Sparse \<lparr>s_values = [Number (Fin 2)], s_index = [0],
                               s_ptr = [0, 1], s_size = (2, 1)\<rparr>))"
proof -
  have a: "dense_at dense_column 0 0 = Some (Number (Fin 3))"
    by (simp add: dense_at_def dense_column_def)
  have z: "s_size sparse_half = d_size dense_column"
    by (simp add: sparse_half_def dense_column_def)
  have "nthRoot test_env (Matrix (Sparse sparse_half)) (Matrix (Dense dense_column))
       = Inr (Matrix (Sparse \<lparr>s_values = [Number (Fin 2)], s_index = [0],
                               s_ptr = [0, 1], s_size = (2, 1)\<rparr>))"
    using a z root_samples(1) sparse_half_entries
    by (simp add: algorithm02_def apply_cb_def) (simp add: sparse_half_def)
  then show ?thesis using z density_samples(1) by simp
qed

text \<open>
  C3, amended. For a sparse base, of a density below 1 or not, and a dense root of the
  same shape that has no negative cell, \<open>nthRoot\<close> does not fail with
  \<open>NonInvertibleZero\<close>: the density test is made for a sparse operand on the root side
  only, and when \<open>nthRoot\<close> succeeds the result is a \<open>SparseMatrix\<close>.
\<close>

theorem sparse_base_dense_root:
  "s_size x = d_size y \<and> (\<forall>row \<in> set (d_data y). \<forall>c \<in> set row. \<not> negative_scalar c) \<longrightarrow>
     nthRoot E (Matrix (Sparse x)) (Matrix (Dense y)) \<noteq> Inl NonInvertibleZero
     \<and> (nthRoot E (Matrix (Sparse x)) (Matrix (Dense y)) = Inr z \<longrightarrow>
          (\<exists>s. z = Matrix (Sparse s)))"
proof
  assume "s_size x = d_size y \<and> (\<forall>row \<in> set (d_data y). \<forall>c \<in> set row. \<not> negative_scalar c)"
  then have sz: "s_size x = d_size y" by blast
  show "nthRoot E (Matrix (Sparse x)) (Matrix (Dense y)) \<noteq> Inl NonInvertibleZero
     \<and> (nthRoot E (Matrix (Sparse x)) (Matrix (Dense y)) = Inr z \<longrightarrow>
          (\<exists>s. z = Matrix (Sparse s)))"
  proof (cases "algorithm02 y x (nthRoot_scalar E) True")
    case (Inl e)
    then show ?thesis using algorithm02_errors [of y x E True e] sz by simp
  next
    case (Inr m)
    then have "\<exists>s. m = Sparse s"
      by (auto simp: algorithm02_def split: if_splits sum.splits)
    then show ?thesis using Inr by auto
  qed
qed

theorem sparse_base_dense_root_witness:
  "s_size sparse_half = d_size dense_column
   \<and> d_data dense_column = [[Number (Fin 3)], [Number (Fin 3)]]
   \<and> \<not> negative_scalar (Number (Fin 3))
   \<and> nthRoot test_env (Matrix (Sparse sparse_half)) (Matrix (Dense dense_column))
       \<noteq> Inl NonInvertibleZero
   \<and> (\<exists>s. nthRoot test_env (Matrix (Sparse sparse_half)) (Matrix (Dense dense_column))
          = Inr (Matrix (Sparse s)))"
proof -
  have a: "dense_at dense_column 0 0 = Some (Number (Fin 3))"
    by (simp add: dense_at_def dense_column_def)
  have z: "s_size sparse_half = d_size dense_column"
    by (simp add: sparse_half_def dense_column_def)
  have v: "nthRoot test_env (Matrix (Sparse sparse_half)) (Matrix (Dense dense_column))
       = Inr (Matrix (Sparse (sparse_half\<lparr>s_values := [Number (Fin 2)]\<rparr>)))"
    using a z root_samples(1) sparse_half_entries
    by (simp add: algorithm02_def apply_cb_def)
  have n: "\<forall>row \<in> set (d_data dense_column). \<forall>c \<in> set row. \<not> negative_scalar c"
    by (simp add: dense_column_def)
  show ?thesis
    using sparse_base_dense_root [where x = sparse_half and y = dense_column and E = test_env
        and z = "Matrix (Sparse (sparse_half\<lparr>s_values := [Number (Fin 2)]\<rparr>))"] z v n
    by (simp add: dense_column_def)
qed

lemma algorithm_kinds:
  "algorithm13 a b cb = Inr m \<Longrightarrow> is_dense m"
  "algorithm01 a s cb f = Inr m \<Longrightarrow> is_dense m"
  "algorithm02 a s cb f = Inr m \<Longrightarrow> \<not> is_dense m"
  "algorithm06 s t cb = Inr m \<Longrightarrow> \<not> is_dense m"
  by (auto simp: algorithm13_def algorithm01_def algorithm02_def algorithm06_def
      split: if_splits sum.splits)

lemma sparse_dense_sample:
  "nthRoot test_env (Matrix (Sparse sparse_full)) (Matrix (Dense dense_cell))
     = Inr (Matrix (Sparse \<lparr>s_values = [Number PInf], s_index = [0], s_ptr = [0, 1],
                             s_size = (1, 1)\<rparr>))"
proof -
  have a: "dense_at dense_cell 0 0 = Some (Number (Fin 2))"
    by (simp add: dense_at_def dense_cell_def)
  have z: "d_size dense_cell = s_size sparse_full"
    by (simp add: sparse_full_def dense_cell_def)
  show ?thesis
    using a z root_samples(4) sparse_full_entries
    by (simp add: algorithm02_def apply_cb_def) (simp add: sparse_full_def)
qed

text \<open>A full sparse base of one cell with a dense root: one operand is dense and the
  result is a \<open>SparseMatrix\<close>.\<close>

theorem dense_operand_sparse_result_counterexample:
  "is_dense (Dense dense_cell)
   \<and> nthRoot test_env (Matrix (Sparse sparse_full)) (Matrix (Dense dense_cell))
       = Inr (Matrix (Sparse \<lparr>s_values = [Number PInf], s_index = [0], s_ptr = [0, 1],
                               s_size = (1, 1)\<rparr>))
   \<and> \<not> is_dense (Sparse \<lparr>s_values = [Number PInf], s_index = [0], s_ptr = [0, 1],
                           s_size = (1, 1)\<rparr>)"
  using sparse_dense_sample by simp

text \<open>
  C8, amended. For two matrix operands on which \<open>nthRoot\<close> succeeds, the result is a
  matrix of the storage kind of the base: dense when the base is dense, whatever the
  root is, and sparse when the base is sparse; in particular a sparse base with a
  dense root gives a \<open>SparseMatrix\<close>.
\<close>

theorem result_storage_kind:
  "(nthRoot E (Matrix x) (Matrix y) = Inr z \<longrightarrow>
      (\<exists>m. z = Matrix m \<and> (is_dense m \<longleftrightarrow> is_dense x)))
   \<and> (nthRoot E (Matrix (Sparse s)) (Matrix (Dense d)) = Inr z \<longrightarrow>
      (\<exists>r. z = Matrix (Sparse r)))"
proof -
  have a: "\<exists>m. z = Matrix m \<and> (is_dense m \<longleftrightarrow> is_dense x)"
    if "nthRoot E (Matrix x) (Matrix y) = Inr z" for x y z
  proof (cases x; cases y)
    fix a b assume "x = Dense a" "y = Dense b"
    then show ?thesis using that algorithm_kinds(1) [of a b "nthRoot_scalar E"]
      by (auto simp: lift_matrix_def split: sum.splits)
  next
    fix a b assume "x = Dense a" "y = Sparse b"
    then show ?thesis using that algorithm_kinds(2) [of a b "nthRoot_scalar E" False]
      by (auto simp: lift_matrix_def split: sum.splits if_splits)
  next
    fix a b assume "x = Sparse a" "y = Dense b"
    then show ?thesis using that algorithm_kinds(3) [of b a "nthRoot_scalar E" True]
      by (auto simp: lift_matrix_def split: sum.splits)
  next
    fix a b assume "x = Sparse a" "y = Sparse b"
    then show ?thesis using that algorithm_kinds(4) [of a b "nthRoot_scalar E"]
      by (auto simp: lift_matrix_def split: sum.splits if_splits)
  qed
  have b: "\<exists>r. z = Matrix (Sparse r)" if "nthRoot E (Matrix (Sparse s)) (Matrix (Dense d)) = Inr z"
  proof -
    from a [OF that] obtain m where "z = Matrix m" "\<not> is_dense m" by auto
    then show ?thesis by (cases m) auto
  qed
  show ?thesis using a b by blast
qed

theorem result_storage_kind_witness:
  "nthRoot test_env (Matrix (Sparse sparse_full)) (Matrix (Dense dense_cell))
     = Inr (Matrix (Sparse \<lparr>s_values = [Number PInf], s_index = [0], s_ptr = [0, 1],
                             s_size = (1, 1)\<rparr>))
   \<and> (\<exists>m. Matrix (Sparse \<lparr>s_values = [Number PInf], s_index = [0], s_ptr = [0, 1],
                            s_size = (1, 1)\<rparr>) = Matrix m
         \<and> (is_dense m \<longleftrightarrow> is_dense (Sparse sparse_full)))"
  using result_storage_kind [where E = test_env and x = "Sparse sparse_full"
      and y = "Dense dense_cell" and s = sparse_full and d = dense_cell
      and z = "Matrix (Sparse \<lparr>s_values = [Number PInf], s_index = [0], s_ptr = [0, 1],
                                s_size = (1, 1)\<rparr>)"]
    sparse_dense_sample
  by blast

end
